theory Spec2Isabelle
  imports Main "HOL-Library.AList"
begin

section \<open>Python values, exceptions and string helpers\<close>

text \<open>
  The values that configuration lookups and template expressions produce: \<open>None\<close>,
  booleans, integers and strings. Exceptions are values of the type \<open>error\<close>; a function
  that can raise returns \<open>error + 'a\<close> with \<open>Inl\<close> for the raised exception.
\<close>

datatype pyval = PNone | PBool bool | PInt int | PStr string

datatype error = TypeError string | ValueError string | AttributeError string | TemplateNotFound string

fun exc_class :: "error \<Rightarrow> string" where
  "exc_class (TypeError m) = ''TypeError''"
| "exc_class (ValueError m) = ''ValueError''"
| "exc_class (AttributeError m) = ''AttributeError''"
| "exc_class (TemplateNotFound m) = ''TemplateNotFound''"

fun exc_message :: "error \<Rightarrow> string" where
  "exc_message (TypeError m) = m"
| "exc_message (ValueError m) = m"
| "exc_message (AttributeError m) = m"
| "exc_message (TemplateNotFound m) = m"

text \<open>Truthiness, as \<open>if x:\<close> and \<open>not x\<close> test it.\<close>

fun truthy :: "pyval \<Rightarrow> bool" where
  "truthy PNone = False"
| "truthy (PBool b) = b"
| "truthy (PInt i) = (i \<noteq> 0)"
| "truthy (PStr s) = (s \<noteq> [])"

definition digit_chars :: string where
  "digit_chars = ''0123456789''"

fun str_nat :: "nat \<Rightarrow> string" where
  "str_nat n = (if n < 10 then [digit_chars ! n]
                else str_nat (n div 10) @ [digit_chars ! (n mod 10)])"

declare str_nat.simps [simp del]

text \<open>The builtin \<open>str\<close>.\<close>

fun str_py :: "pyval \<Rightarrow> string" where
  "str_py PNone = ''None''"
| "str_py (PBool b) = (if b then ''True'' else ''False'')"
| "str_py (PInt i) = (if i < 0 then ''-'' @ str_nat (nat (- i)) else str_nat (nat i))"
| "str_py (PStr s) = s"

text \<open>\<open>s.startswith(p)\<close>.\<close>

definition startswith :: "string \<Rightarrow> string \<Rightarrow> bool" where
  "startswith s p = (take (length p) s = p)"

text \<open>\<open>d.update(e)\<close> on dictionaries kept as association lists in insertion order.\<close>

definition dict_update :: "('k \<times> 'v) list \<Rightarrow> ('k \<times> 'v) list \<Rightarrow> ('k \<times> 'v) list" where
  "dict_update d e = fold (\<lambda>(k, v). AList.update k v) e d"

section \<open>CTFdRequest\<close>

text \<open>
  The request object as \<open>Request.__init__\<close> leaves it: the script root and the path.
  \<open>CTFdRequest.__init__\<close> then assigns \<open>self.path = self.script_root + self.path\<close>.
\<close>

record request =
  script_root :: string
  path :: string

definition CTFdRequest_init :: "request \<Rightarrow> request" where
  "CTFdRequest_init self = self\<lparr>path := script_root self @ path self\<rparr>"

section \<open>Template loaders\<close>

type_synonym globals = "(string \<times> pyval) list"

record template =
  source :: string
  tglobals :: globals
  is_up_to_date :: bool

text \<open>
  The loader classes that \<open>create_app\<close> instantiates. \<open>DictLoader\<close> carries its mapping,
  \<open>FileSystemLoader\<close> its search path, \<open>PrefixLoader\<close> its mapping from prefix to loader,
  \<open>ChoiceLoader\<close> its list of loaders.
\<close>

datatype loader =
    DictLoader "(string \<times> string) list"
  | ThemeLoader
  | FileSystemLoader string
  | PrefixLoader "(string \<times> loader) list"
  | ChoiceLoader "loader list"

text \<open>
  What lies outside this module and is read by the loaders: the class \<open>ThemeLoader\<close> is
  not defined in the module, so its source lookup is the parameter \<open>theme_get_source\<close>
  (given the configuration store and a name, the source or nothing); the file system read
  of \<open>FileSystemLoader\<close> is the parameter \<open>fs_get_source\<close> (search path, name).
\<close>

type_synonym config_store = "(string \<times> pyval) list"

record disk =
  theme_get_source :: "config_store \<Rightarrow> string \<Rightarrow> string option"
  fs_get_source :: "string \<Rightarrow> string \<Rightarrow> string option"

text \<open>\<open>template.split(delimiter, 1)\<close> unpacked into two names; \<open>None\<close> is the
  \<open>ValueError\<close> of unpacking a single piece.\<close>

fun split_once :: "char \<Rightarrow> string \<Rightarrow> (string \<times> string) option" where
  "split_once d [] = None"
| "split_once d (c # cs) =
     (if c = d then Some ([], cs)
      else (case split_once d cs of None \<Rightarrow> None | Some (a, b) \<Rightarrow> Some (c # a, b)))"

text \<open>
  \<open>loader.load(environment, name, globals)\<close>: the source is looked up and compiled into
  a template that carries the globals and reports itself up to date; the compiled code is
  represented by its source. The context \<open>c\<close> of a call holds what stays the same while
  the loaders delegate to each other: the disk, the configuration store and the globals.
  \<open>ChoiceLoader.load\<close> tries its loaders in order and passes over \<open>TemplateNotFound\<close>
  only; \<open>PrefixLoader.load\<close> splits the name at the first \<open>/\<close>, looks the prefix up
  and re-raises \<open>TemplateNotFound\<close> with the full name.
\<close>

record load_ctx =
  c_disk :: disk
  c_config :: config_store
  c_globals :: globals

definition from_source :: "load_ctx \<Rightarrow> string \<Rightarrow> string option \<Rightarrow> error + template" where
  "from_source c name src =
     (case src of
        None \<Rightarrow> Inl (TemplateNotFound name)
      | Some text \<Rightarrow> Inr \<lparr>source = text, tglobals = c_globals c, is_up_to_date = True\<rparr>)"

fun load :: "load_ctx \<Rightarrow> loader \<Rightarrow> string \<Rightarrow> error + template"
and choice_load :: "load_ctx \<Rightarrow> loader list \<Rightarrow> string \<Rightarrow> error + template"
and prefix_load :: "load_ctx \<Rightarrow> (string \<times> loader) list \<Rightarrow> string \<Rightarrow> string \<Rightarrow> string \<Rightarrow> error + template"
where
  "load c (DictLoader mapping) name = from_source c name (map_of mapping name)"
| "load c ThemeLoader name = from_source c name (theme_get_source (c_disk c) (c_config c) name)"
| "load c (FileSystemLoader searchpath) name =
     from_source c name (fs_get_source (c_disk c) searchpath name)"
| "load c (PrefixLoader mapping) name =
     (case split_once CHR ''/'' name of
        None \<Rightarrow> Inl (TemplateNotFound name)
      | Some (prefix, local_name) \<Rightarrow> prefix_load c mapping prefix local_name name)"
| "load c (ChoiceLoader loaders) name = choice_load c loaders name"
| "choice_load c [] name = Inl (TemplateNotFound name)"
| "choice_load c (l # ls) name =
     (case load c l name of
        Inl (TemplateNotFound n) \<Rightarrow> choice_load c ls name
      | Inl e \<Rightarrow> Inl e
      | Inr t \<Rightarrow> Inr t)"
| "prefix_load c [] prefix local_name name = Inl (TemplateNotFound name)"
| "prefix_load c ((k, l) # m) prefix local_name name =
     (if k = prefix
      then (case load c l local_name of
              Inl (TemplateNotFound n) \<Rightarrow> Inl (TemplateNotFound name)
            | Inl e \<Rightarrow> Inl e
            | Inr t \<Rightarrow> Inr t)
      else prefix_load c m prefix local_name name)"

section \<open>SandboxedBaseEnvironment\<close>

text \<open>
  The state that \<open>_load_template\<close> reads and writes. The environment's \<open>loader\<close> is
  absent or an object (its identity and the loader); \<open>cache\<close> is absent or a dictionary
  from cache keys to template objects; template objects live in \<open>heap\<close> and are referred
  to by their index, so that two references to one object are one index. \<open>config\<close> is the
  store behind \<open>utils.get_config\<close>. \<open>trace\<close> records, in order, what the code has done.
\<close>

text \<open>
  A cache key is \<open>(weakref.ref(self.loader), cache_name)\<close>: the identity of the loader
  object and the cache name.
\<close>

type_synonym addr = nat
type_synonym cache_key = "nat \<times> string"

datatype event =
    GetConfig string
  | SetConfig string pyval
  | CacheGet cache_key
  | CacheSet cache_key addr
  | LoaderLoad string
  | GlobalsUpdate addr
  | RunUpgrade

record state =
  config :: config_store
  on_disk :: disk
  loader :: "(nat \<times> loader) option"
  cache :: "(cache_key \<times> addr) list option"
  auto_reload :: bool
  env_globals :: globals
  heap :: "template list"
  trace :: "event list"

definition log_event :: "event \<Rightarrow> state \<Rightarrow> state" where
  "log_event e s = s\<lparr>trace := trace s @ [e]\<rparr>"

text \<open>
  Modelled from the spec: \<open>utils.get_config\<close> and \<open>utils.set_config\<close> are imported
  from \<open>CTFd.utils\<close>, which is not part of this module; they are the get and set of the
  process-wide configuration key-value store. \<open>get_config(key)\<close> is the stored value,
  \<open>None\<close> when the key has none; \<open>set_config(key, value)\<close> stores the value.
\<close>

definition get_config :: "string \<Rightarrow> state \<Rightarrow> pyval \<times> state" where
  "get_config key s =
     ((case map_of (config s) key of None \<Rightarrow> PNone | Some v \<Rightarrow> v), log_event (GetConfig key) s)"

definition set_config :: "string \<Rightarrow> pyval \<Rightarrow> state \<Rightarrow> state" where
  "set_config key v s = log_event (SetConfig key v) (s\<lparr>config := AList.update key v (config s)\<rparr>)"

text \<open>Lines 66 to 69: the cache name.\<close>

definition cache_name_of :: "string \<Rightarrow> state \<Rightarrow> string \<times> state" where
  "cache_name_of name s =
     (if \<not> startswith name ''admin/''
      then (let (theme, s1) = get_config ''ctf_theme'' s
            in (str_py theme @ ''/'' @ name, s1))
      else (name, s))"

text \<open>
  Lines 72 to 76: with a cache configured, the lookup of the key; the template found is
  honoured when auto-reload is off or the template reports itself up to date. The result
  is the object to return, or \<open>None\<close> when the code goes on to the loader. A cache
  entry always refers to an allocated object; an index outside the heap is read as no
  entry.
\<close>

definition heap_get :: "template list \<Rightarrow> addr \<Rightarrow> template option" where
  "heap_get h a = (if a < length h then Some (h ! a) else None)"

definition cache_hit :: "cache_key \<Rightarrow> state \<Rightarrow> addr option \<times> state" where
  "cache_hit cache_key s =
     (case cache s of
        None \<Rightarrow> (None, s)
      | Some c \<Rightarrow>
          (let s1 = log_event (CacheGet cache_key) s
           in case map_of c cache_key of
                None \<Rightarrow> (None, s1)
              | Some a \<Rightarrow>
                  (case heap_get (heap s1) a of
                     None \<Rightarrow> (None, s1)
                   | Some t \<Rightarrow>
                       if \<not> auto_reload s1 \<or> is_up_to_date t then (Some a, s1)
                       else (None, s1))))"

text \<open>Lines 77 and 78: \<open>if globals: template.globals.update(globals)\<close>.\<close>

definition update_globals :: "addr \<Rightarrow> globals option \<Rightarrow> state \<Rightarrow> state" where
  "update_globals a g s =
     (case g of
        None \<Rightarrow> s
      | Some d \<Rightarrow>
          if d \<noteq> []
          then log_event (GlobalsUpdate a)
                 (s\<lparr>heap := (heap s)[a := (heap s ! a)\<lparr>tglobals := dict_update (tglobals (heap s ! a)) d\<rparr>]\<rparr>)
          else s)"

text \<open>\<open>self.make_globals(d)\<close>: the environment's globals overlaid with \<open>d\<close>.\<close>

definition make_globals :: "globals option \<Rightarrow> state \<Rightarrow> globals" where
  "make_globals g s = dict_update (env_globals s) (case g of None \<Rightarrow> [] | Some d \<Rightarrow> d)"

text \<open>Line 81: the call of the loader, with the name as given.\<close>

definition loader_load :: "loader \<Rightarrow> string \<Rightarrow> globals \<Rightarrow> state \<Rightarrow> (error + template) \<times> state" where
  "loader_load l name g s =
     (load \<lparr>c_disk = on_disk s, c_config = config s, c_globals = g\<rparr> l name,
      log_event (LoaderLoad name) s)"

text \<open>Lines 83 and 84: the new template object is stored under the key.\<close>

definition cache_store :: "cache_key \<Rightarrow> addr \<Rightarrow> state \<Rightarrow> state" where
  "cache_store cache_key a s =
     (case cache s of
        None \<Rightarrow> s
      | Some c \<Rightarrow> log_event (CacheSet cache_key a) (s\<lparr>cache := Some (AList.update cache_key a c)\<rparr>))"

definition new_template :: "template \<Rightarrow> state \<Rightarrow> addr \<times> state" where
  "new_template t s = (length (heap s), s\<lparr>heap := heap s @ [t]\<rparr>)"

text \<open>Lines 81 to 85: load through the loader, store the result, return it.\<close>

definition load_and_store ::
  "loader \<Rightarrow> cache_key \<Rightarrow> string \<Rightarrow> globals option \<Rightarrow> state \<Rightarrow> (error + addr) \<times> state" where
  "load_and_store l cache_key name g s =
     (case loader_load l name (make_globals g s) s of
        (Inl e, s1) \<Rightarrow> (Inl e, s1)
      | (Inr t, s1) \<Rightarrow>
          (let (a, s2) = new_template t s1
           in (Inr a, cache_store cache_key a s2)))"

definition load_template :: "string \<Rightarrow> globals option \<Rightarrow> state \<Rightarrow> (error + addr) \<times> state" where
  "load_template name g s =
     (case loader s of
        None \<Rightarrow> (Inl (TypeError ''no loader for this environment specified''), s)
      | Some (lid, l) \<Rightarrow>
          (let (cache_name, s1) = cache_name_of name s;
               cache_key = (lid, cache_name)
           in case cache_hit cache_key s1 of
                (Some a, s2) \<Rightarrow> (Inr a, update_globals a g s2)
              | (None, s2) \<Rightarrow> load_and_store l cache_key name g s2))"

text \<open>The events a run has added to the trace.\<close>

definition events_since :: "state \<Rightarrow> state \<Rightarrow> event list" where
  "events_since s s' = drop (length (trace s)) (trace s')"

subsection \<open>The constructor\<close>

text \<open>
  \<open>SandboxedBaseEnvironment.__init__(self, app, **options)\<close>: an option is absent
  (\<open>None\<close>) or given; a given loader or finalize may itself be \<open>None\<close>. The first
  argument stands for \<open>app.create_global_jinja_loader()\<close>. The result is the options
  that reach \<open>SandboxedEnvironment.__init__\<close>, from which the environment takes its
  \<open>loader\<close> and \<open>finalize\<close> attributes.
\<close>

record options =
  opt_loader :: "(nat \<times> loader) option option"
  opt_finalize :: "(pyval \<Rightarrow> pyval) option option"

definition SandboxedBaseEnvironment_init :: "(nat \<times> loader) \<Rightarrow> options \<Rightarrow> options" where
  "SandboxedBaseEnvironment_init global_jinja_loader opts =
     (let opts1 = (if opt_loader opts = None
                   then opts\<lparr>opt_loader := Some (Some global_jinja_loader)\<rparr> else opts);
          opts2 = (if opt_finalize opts1 = None
                   then opts1\<lparr>opt_finalize := Some (Some (\<lambda>x. if x \<noteq> PNone then x else PStr []))\<rparr>
                   else opts1)
      in opts2)"

definition env_finalize :: "options \<Rightarrow> (pyval \<Rightarrow> pyval) option" where
  "env_finalize opts = (case opt_finalize opts of None \<Rightarrow> None | Some f \<Rightarrow> f)"

definition env_loader :: "options \<Rightarrow> (nat \<times> loader) option" where
  "env_loader opts = (case opt_loader opts of None \<Rightarrow> None | Some l \<Rightarrow> l)"

text \<open>The text an expression's value is rendered to: \<open>str\<close> of the finalized value.\<close>

definition render_value :: "(pyval \<Rightarrow> pyval) option \<Rightarrow> pyval \<Rightarrow> string" where
  "render_value fin x = str_py (case fin of None \<Rightarrow> x | Some f \<Rightarrow> f x)"

section \<open>A request's life in this module\<close>

text \<open>
  The view registered for \<open>/\<close> renders \<open>odu_landing.html\<close>, which resolves the template
  through the environment. A request is constructed and then served by calls into this
  module: the view, or a template resolution.
\<close>

definition index :: "state \<Rightarrow> (error + addr) \<times> state" where
  "index s = load_template ''odu_landing.html'' None s"

record world =
  req :: request
  env :: state

datatype call = Index | LoadTemplate string "globals option"

fun handle :: "call \<Rightarrow> world \<Rightarrow> world" where
  "handle Index w = w\<lparr>env := snd (index (env w))\<rparr>"
| "handle (LoadTemplate name g) w = w\<lparr>env := snd (load_template name g (env w))\<rparr>"

definition lifecycle :: "request \<Rightarrow> call list \<Rightarrow> state \<Rightarrow> world" where
  "lifecycle r calls s = fold handle calls \<lparr>req = CTFdRequest_init r, env = s\<rparr>"

section \<open>create_app\<close>

subsection \<open>The loader chain\<close>

text \<open>\<open>os.path.join(a, b)\<close> on POSIX paths.\<close>

definition os_path_join :: "string \<Rightarrow> string \<Rightarrow> string" where
  "os_path_join a b =
     (if startswith b ''/'' then b
      else if a = [] \<or> last a = CHR ''/'' then a @ b
      else a @ ''/'' @ b)"

text \<open>
  Lines 103 to 108. Of the application object, the root path, the override table
  \<open>overridden_templates\<close> and the loader \<open>jinja_loader\<close>. The \<open>DictLoader\<close> is
  built over the override table of the application.
\<close>

record flask_app =
  root_path :: string
  overridden_templates :: "(string \<times> string) list"
  jinja_loader :: "loader option"

definition loaders :: "flask_app \<Rightarrow> loader list" where
  "loaders app =
     [DictLoader (overridden_templates app),
      ThemeLoader,
      PrefixLoader [(''plugins'', FileSystemLoader (os_path_join (root_path app) ''plugins''))]]"

definition create_app_loaders :: "flask_app \<Rightarrow> flask_app" where
  "create_app_loaders app = app\<lparr>jinja_loader := Some (ChoiceLoader (loaders app))\<rparr>"

subsection \<open>The reverse proxy\<close>

text \<open>
  The values \<open>app.config.get("REVERSE_PROXY")\<close> can have: none, a boolean, a string,
  a tuple of integers.
\<close>

datatype reverse_proxy_value = RPNone | RPBool bool | RPStr string | RPTuple "int list"

fun rp_truthy :: "reverse_proxy_value \<Rightarrow> bool" where
  "rp_truthy RPNone = False"
| "rp_truthy (RPBool b) = b"
| "rp_truthy (RPStr s) = (s \<noteq> [])"
| "rp_truthy (RPTuple xs) = (xs \<noteq> [])"

text \<open>\<open>s.split(",")\<close>.\<close>

fun split_sep :: "char \<Rightarrow> string \<Rightarrow> string list" where
  "split_sep d [] = [[]]"
| "split_sep d (c # cs) =
     (if c = d then [] # split_sep d cs
      else (case split_sep d cs of [] \<Rightarrow> [[c]] | w # ws \<Rightarrow> (c # w) # ws))"

definition is_digit :: "char \<Rightarrow> bool" where
  "is_digit c = (c \<in> set digit_chars)"

definition is_space :: "char \<Rightarrow> bool" where
  "is_space c = (c \<in> set [CHR '' '', CHR 0x09, CHR 0x0A, CHR 0x0B, CHR 0x0C, CHR 0x0D,
                            CHR 0x1C, CHR 0x1D, CHR 0x1E, CHR 0x1F])"

definition strip :: "string \<Rightarrow> string" where
  "strip s = rev (dropWhile is_space (rev (dropWhile is_space s)))"

definition digit_val :: "char \<Rightarrow> nat" where
  "digit_val c = (of_char c :: nat) - 48"

definition nat_of_digits :: "string \<Rightarrow> nat" where
  "nat_of_digits ds = foldl (\<lambda>n c. 10 * n + digit_val c) 0 ds"

text \<open>The digits of an integer literal: decimal digits, single underscores between them.\<close>

fun int_body :: "string \<Rightarrow> bool" where
  "int_body [] = False"
| "int_body [c] = is_digit c"
| "int_body (c # d # r) =
     (is_digit c \<and> (if d = CHR ''_'' then int_body r else int_body (d # r)))"

text \<open>The builtin \<open>int\<close> on a string: surrounding whitespace, a sign, the digits.\<close>

definition int_py :: "string \<Rightarrow> error + int" where
  "int_py s =
     (let t = strip s;
          (sign, body) = (case t of
                            [] \<Rightarrow> (1, [])
                          | c # r \<Rightarrow> if c = CHR ''-'' then (- 1, r)
                                     else if c = CHR ''+'' then (1, r) else (1, t))
      in if int_body body
         then Inr (sign * int (nat_of_digits (filter is_digit body)))
         else Inl (ValueError (''invalid literal for int() with base 10: '' @ s)))"

text \<open>\<open>[int(i) for i in xs]\<close>: the first failure is raised.\<close>

fun int_list :: "string list \<Rightarrow> error + int list" where
  "int_list [] = Inr []"
| "int_list (x # xs) =
     (case int_py x of
        Inl e \<Rightarrow> Inl e
      | Inr i \<Rightarrow> (case int_list xs of Inl e \<Rightarrow> Inl e | Inr is \<Rightarrow> Inr (i # is)))"

text \<open>
  The request-handling entry point: the application's own, or a \<open>ProxyFix\<close> around an
  entry point with its five hop counts \<open>x_for, x_proto, x_host, x_port, x_prefix\<close>.
  \<open>ProxyFix(app, *args)\<close> fills the counts by position, the rest from the defaults
  \<open>1, 1, 0, 0, 0\<close>; more than five positional counts are a \<open>TypeError\<close>.
\<close>

datatype wsgi_app = FlaskWsgiApp | ProxyFix wsgi_app int int int int int

fun ProxyFix_init :: "wsgi_app \<Rightarrow> int list \<Rightarrow> error + wsgi_app" where
  "ProxyFix_init app [] = Inr (ProxyFix app 1 1 0 0 0)"
| "ProxyFix_init app [a] = Inr (ProxyFix app a 1 0 0 0)"
| "ProxyFix_init app [a, b] = Inr (ProxyFix app a b 0 0 0)"
| "ProxyFix_init app [a, b, c] = Inr (ProxyFix app a b c 0 0)"
| "ProxyFix_init app [a, b, c, d] = Inr (ProxyFix app a b c d 0)"
| "ProxyFix_init app [a, b, c, d, e] = Inr (ProxyFix app a b c d e)"
| "ProxyFix_init app xs = Inl (TypeError ''__init__() takes from 2 to 7 positional arguments'')"

text \<open>
  Lines 133 to 136. \<open>proxyfix_args\<close> is the list of parsed integers for a string and
  \<open>None\<close> for any other value; unpacking \<open>None\<close> with \<open>*\<close> is a \<open>TypeError\<close>.
\<close>

definition proxyfix_args :: "reverse_proxy_value \<Rightarrow> error + int list option" where
  "proxyfix_args reverse_proxy =
     (case reverse_proxy of
        RPStr s \<Rightarrow> (case int_list (split_sep CHR '','' s) of
                     Inl e \<Rightarrow> Inl e
                   | Inr is \<Rightarrow> Inr (Some is))
      | _ \<Rightarrow> Inr None)"

definition create_app_reverse_proxy :: "reverse_proxy_value \<Rightarrow> wsgi_app \<Rightarrow> error + wsgi_app" where
  "create_app_reverse_proxy reverse_proxy app =
     (if rp_truthy reverse_proxy
      then (case proxyfix_args reverse_proxy of
              Inl e \<Rightarrow> Inl e
            | Inr None \<Rightarrow> Inl (TypeError ''argument after * must be an iterable, not NoneType'')
            | Inr (Some args) \<Rightarrow> ProxyFix_init app args)
      else Inr app)"

subsection \<open>The version check\<close>

text \<open>
  \<open>distutils.version.StrictVersion\<close>: two or three dot-separated numbers and an optional
  pre-release tag, \<open>a\<close> or \<open>b\<close> and a number; nothing else may follow but one final
  newline. A missing patch number is 0.
\<close>

record strict_version =
  version :: "nat \<times> nat \<times> nat"
  prerelease :: "(char \<times> nat) option"

definition parse_patch :: "string \<Rightarrow> nat option \<times> string" where
  "parse_patch s =
     (case s of
        [] \<Rightarrow> (None, s)
      | c # r \<Rightarrow>
          if c = CHR ''.'' \<and> takeWhile is_digit r \<noteq> []
          then (Some (nat_of_digits (takeWhile is_digit r)), dropWhile is_digit r)
          else (None, s))"

definition parse_prerelease :: "string \<Rightarrow> (char \<times> nat) option \<times> string" where
  "parse_prerelease s =
     (case s of
        [] \<Rightarrow> (None, s)
      | c # r \<Rightarrow>
          if (c = CHR ''a'' \<or> c = CHR ''b'') \<and> takeWhile is_digit r \<noteq> []
          then (Some (c, nat_of_digits (takeWhile is_digit r)), dropWhile is_digit r)
          else (None, s))"

definition StrictVersion_parse :: "string \<Rightarrow> error + strict_version" where
  "StrictVersion_parse vstring =
     (let invalid = Inl (ValueError (''invalid version number '' @ vstring));
          major = takeWhile is_digit vstring;
          r1 = dropWhile is_digit vstring
      in case r1 of
           [] \<Rightarrow> invalid
         | c # r2 \<Rightarrow>
             (let minor = takeWhile is_digit r2;
                  (patch, r3) = parse_patch (dropWhile is_digit r2);
                  (pre, r4) = parse_prerelease r3
              in if major \<noteq> [] \<and> c = CHR ''.'' \<and> minor \<noteq> [] \<and> (r4 = [] \<or> r4 = [CHR 0x0A])
                 then Inr \<lparr>version = (nat_of_digits major, nat_of_digits minor,
                                       (case patch of None \<Rightarrow> 0 | Some p \<Rightarrow> p)),
                           prerelease = pre\<rparr>
                 else invalid))"

text \<open>
  \<open>StrictVersion(vstring)\<close> parses a truthy argument only; matching a truthy value that
  is not a string is a \<open>TypeError\<close>. An object made from a falsy argument has no
  \<open>version\<close> attribute, which the comparison would miss.
\<close>

fun StrictVersion :: "pyval \<Rightarrow> error + strict_version" where
  "StrictVersion (PStr s) =
     (if s \<noteq> [] then StrictVersion_parse s else Inl (AttributeError ''version''))"
| "StrictVersion v =
     (if truthy v then Inl (TypeError ''expected string or bytes-like object'')
      else Inl (AttributeError ''version''))"

definition tuple3_lt :: "nat \<times> nat \<times> nat \<Rightarrow> nat \<times> nat \<times> nat \<Rightarrow> bool" where
  "tuple3_lt x y =
     (case (x, y) of ((a, b, c), (a', b', c')) \<Rightarrow>
        a < a' \<or> (a = a' \<and> (b < b' \<or> (b = b' \<and> c < c'))))"

definition prerelease_lt :: "char \<times> nat \<Rightarrow> char \<times> nat \<Rightarrow> bool" where
  "prerelease_lt x y =
     (case (x, y) of ((c, n), (c', n')) \<Rightarrow>
        (of_char c :: nat) < of_char c' \<or> (c = c' \<and> n < n'))"

definition StrictVersion_cmp :: "strict_version \<Rightarrow> strict_version \<Rightarrow> int" where
  "StrictVersion_cmp self other =
     (if version self \<noteq> version other
      then (if tuple3_lt (version self) (version other) then - 1 else 1)
      else (case (prerelease self, prerelease other) of
              (None, None) \<Rightarrow> 0
            | (Some p, None) \<Rightarrow> - 1
            | (None, Some q) \<Rightarrow> 1
            | (Some p, Some q) \<Rightarrow> if p = q then 0 else if prerelease_lt p q then - 1 else 1))"

definition StrictVersion_lt :: "strict_version \<Rightarrow> strict_version \<Rightarrow> bool" where
  "StrictVersion_lt self other = (StrictVersion_cmp self other < 0)"

definition CTFd_version :: string where
  "CTFd_version = ''3.7.5''"

text \<open>
  Modelled from the spec: \<open>run_upgrade\<close> is called but not defined in this module; it
  is the upgrade routine that the spec leaves unspecified, and its call is the event
  \<open>RunUpgrade\<close>.
\<close>

definition run_upgrade :: "state \<Rightarrow> state" where
  "run_upgrade s = log_event RunUpgrade s"

text \<open>Lines 138 to 142.\<close>

definition create_app_version :: "state \<Rightarrow> (error + unit) \<times> state" where
  "create_app_version s =
     (let (v, s1) = get_config ''ctf_version'' s
      in if truthy v
         then (case StrictVersion v of
                 Inl e \<Rightarrow> (Inl e, s1)
               | Inr stored \<Rightarrow>
                   (case StrictVersion (PStr CTFd_version) of
                      Inl e \<Rightarrow> (Inl e, s1)
                    | Inr build \<Rightarrow>
                        if StrictVersion_lt stored build then (Inr (), run_upgrade s1)
                        else if \<not> truthy v
                        then (Inr (), set_config ''ctf_version'' (PStr CTFd_version) s1)
                        else (Inr (), s1)))
         else if \<not> truthy v
         then (Inr (), set_config ''ctf_version'' (PStr CTFd_version) s1)
         else (Inr (), s1))"

section \<open>Example inputs\<close>

text \<open>
  A disk with the theme \<open>core\<close> and one plugin template, an application rooted at
  \<open>/opt/CTFd/CTFd\<close> that overrides \<open>index.html\<close>, and an environment over both
  with an empty cache.
\<close>

definition example_disk :: disk where
  "example_disk =
     \<lparr>theme_get_source =
        (\<lambda>cfg name.
           map_of [(''core/templates/a.html'', ''<h1>a</h1>''),
                   (''core/templates/index.html'', ''<h1>theme</h1>'')]
             (str_py (case map_of cfg ''ctf_theme'' of None \<Rightarrow> PNone | Some v \<Rightarrow> v)
                @ ''/templates/'' @ name)),
      fs_get_source =
        (\<lambda>searchpath name.
           map_of [(''/opt/CTFd/CTFd/plugins/challenges/view.html'', ''<div></div>'')]
             (searchpath @ ''/'' @ name))\<rparr>"

definition example_app :: flask_app where
  "example_app =
     \<lparr>root_path = ''/opt/CTFd/CTFd'',
      overridden_templates = [(''index.html'', ''<p>hi</p>'')],
      jinja_loader = None\<rparr>"

definition example_env :: state where
  "example_env =
     \<lparr>config = [(''ctf_theme'', PStr ''core'')],
      on_disk = example_disk,
      loader = Some (1, ChoiceLoader (loaders example_app)),
      cache = Some [],
      auto_reload = False,
      env_globals = [(''ctf_name'', PStr ''CTFd'')],
      heap = [],
      trace = []\<rparr>"

section \<open>Properties of template resolution\<close>

lemma cache_name_of_admin: "startswith name ''admin/'' \<Longrightarrow> cache_name_of name s = (name, s)"
  by (simp add: cache_name_of_def)

lemma cache_name_of_theme:
  "\<not> startswith name ''admin/'' \<Longrightarrow>
   cache_name_of name s =
     (str_py (fst (get_config ''ctf_theme'' s)) @ ''/'' @ name, log_event (GetConfig ''ctf_theme'') s)"
  by (simp add: cache_name_of_def get_config_def)

lemma get_config_set_config: "fst (get_config k (set_config k v s)) = v"
  by (simp add: get_config_def set_config_def log_event_def update_conv')

lemma cache_hit_frame:
  "cache_hit k s = (r, s') \<Longrightarrow>
     s' = s\<lparr>trace := trace s'\<rparr> \<and> (\<exists>ev. trace s' = trace s @ ev \<and> set ev \<subseteq> {CacheGet k})"
  by (auto simp: cache_hit_def log_event_def Let_def split: option.splits if_splits)

lemma cache_hit_Some:
  "cache_hit k s = (Some a, s') \<Longrightarrow>
     \<exists>c t. cache s = Some c \<and> map_of c k = Some a \<and> heap_get (heap s) a = Some t \<and> (\<not> auto_reload s \<or> is_up_to_date t)"
  by (auto simp: cache_hit_def log_event_def Let_def split: option.splits if_splits)

lemma update_globals_frame:
  "cache (update_globals a g s) = cache s \<and> loader (update_globals a g s) = loader s
   \<and> config (update_globals a g s) = config s"
  by (simp add: update_globals_def log_event_def split: option.splits)

lemma load_and_store_Inr:
  "load_and_store l k name g s = (Inr a, s') \<Longrightarrow>
     a = length (heap s) \<and> loader s' = loader s \<and> config s' = config s \<and>
     (\<exists>t. load \<lparr>c_disk = on_disk s, c_config = config s, c_globals = make_globals g s\<rparr> l name = Inr t
          \<and> heap s' = heap s @ [t]) \<and>
     cache s' = map_option (AList.update k a) (cache s)"
  by (auto simp: load_and_store_def loader_load_def new_template_def cache_store_def log_event_def
      split: sum.splits option.splits)

lemma load_template_cache_effect:
  assumes "loader s = Some (lid, l)" and "cache s = Some c" and "load_template name g s = (Inr a, s')"
  shows "loader s' = Some (lid, l) \<and> config s' = config s \<and>
         (\<exists>c'. cache s' = Some c' \<and> map_of c' = (map_of c)((lid, fst (cache_name_of name s)) \<mapsto> a))"
proof -
  obtain cn s1 where cn: "cache_name_of name s = (cn, s1)" by force
  obtain r s2 where ch: "cache_hit (lid, cn) s1 = (r, s2)" by force
  have f1: "loader s1 = loader s \<and> cache s1 = cache s \<and> config s1 = config s"
    using cn by (auto simp: cache_name_of_def get_config_def log_event_def split: if_splits)
  have f2: "loader s2 = loader s \<and> cache s2 = cache s \<and> config s2 = config s"
    using ch f1 by (auto simp: cache_hit_def log_event_def Let_def split: option.splits if_splits)
  show ?thesis
  proof (cases r)
    case None
    then have "load_and_store l (lid, cn) name g s2 = (Inr a, s')"
      using assms(1,3) cn ch by (simp add: load_template_def)
    from load_and_store_Inr[OF this] show ?thesis
      using f2 assms(1,2) cn by (auto simp: update_conv')
  next
    case (Some a')
    then have res: "a' = a \<and> s' = update_globals a g s2"
      using assms(1,3) cn ch by (auto simp: load_template_def)
    moreover have "map_of c (lid, cn) = Some a"
      using cache_hit_Some[of "(lid, cn)" s1 a s2] ch Some res f1 assms(2) by auto
    ultimately show ?thesis
      using f2 assms(1,2) cn update_globals_frame[of a g s2] by (auto simp: fun_upd_idem)
  qed
qed

lemma cache_name_of_events:
  "events_since s (snd (cache_name_of name s)) =
     (if startswith name ''admin/'' then [] else [GetConfig ''ctf_theme''])"
  by (simp add: cache_name_of_def get_config_def log_event_def events_since_def)

lemma load_and_store_Inl:
  "load_and_store l k name g s = (Inl e, s') \<Longrightarrow>
     load \<lparr>c_disk = on_disk s, c_config = config s, c_globals = make_globals g s\<rparr> l name = Inl e \<and>
     s' = log_event (LoaderLoad name) s"
  by (auto simp: load_and_store_def loader_load_def new_template_def cache_store_def log_event_def
      split: sum.splits option.splits)

lemma load_template_Inl:
  assumes "loader s = Some (lid, l)" and "fst (load_template name g s) = Inl e"
  shows "load \<lparr>c_disk = on_disk s, c_config = config s, c_globals = make_globals g s\<rparr> l name = Inl e"
proof -
  obtain cn s1 where cn: "cache_name_of name s = (cn, s1)" by force
  obtain r s2 where ch: "cache_hit (lid, cn) s1 = (r, s2)" by force
  have f1: "on_disk s1 = on_disk s \<and> config s1 = config s \<and> env_globals s1 = env_globals s"
    using cn by (auto simp: cache_name_of_def get_config_def log_event_def split: if_splits)
  have f2: "on_disk s2 = on_disk s \<and> config s2 = config s \<and> env_globals s2 = env_globals s"
    using ch f1 by (auto simp: cache_hit_def log_event_def Let_def split: option.splits if_splits)
  obtain s' where las: "r = None \<and> load_and_store l (lid, cn) name g s2 = (Inl e, s')"
    using assms cn ch by (cases r; cases "load_and_store l (lid, cn) name g s2") (auto simp: load_template_def)
  from load_and_store_Inl[of l "(lid, cn)" name g s2 e s'] las f2 show ?thesis
    by (simp add: make_globals_def)
qed

lemma cache_name_of_trace:
  "cache_name_of name s = (cn, s1) \<Longrightarrow>
     s1 = s\<lparr>trace := trace s @ (if startswith name ''admin/'' then [] else [GetConfig ''ctf_theme''])\<rparr>"
  by (auto simp: cache_name_of_def get_config_def log_event_def split: if_splits)

lemma load_template_hit:
  assumes "loader s = Some (lid, l)" and "cache_name_of name s = (cn, s1)"
    and "cache s = Some c" and "map_of c (lid, cn) = Some a" and "heap_get (heap s) a = Some t"
    and "\<not> auto_reload s \<or> is_up_to_date t"
  shows "load_template name g s = (Inr a, update_globals a g (log_event (CacheGet (lid, cn)) s1))"
proof -
  have "cache s1 = cache s \<and> heap s1 = heap s \<and> auto_reload s1 = auto_reload s"
    using assms(2) by (auto simp: cache_name_of_def get_config_def log_event_def split: if_splits)
  then have "cache_hit (lid, cn) s1 = (Some a, log_event (CacheGet (lid, cn)) s1)"
    using assms(3-6) by (auto simp: cache_hit_def log_event_def Let_def)
  then show ?thesis using assms(1,2) by (simp add: load_template_def Let_def)
qed

lemma load_template_stale:
  assumes "loader s = Some (lid, l)" and "cache_name_of name s = (cn, s1)"
    and "cache s = Some c" and "map_of c (lid, cn) = Some a" and "heap_get (heap s) a = Some t"
    and "\<not> (\<not> auto_reload s \<or> is_up_to_date t)"
  shows "load_template name g s = load_and_store l (lid, cn) name g (log_event (CacheGet (lid, cn)) s1)"
proof -
  have "cache s1 = cache s \<and> heap s1 = heap s \<and> auto_reload s1 = auto_reload s"
    using assms(2) by (auto simp: cache_name_of_def get_config_def log_event_def split: if_splits)
  then have "cache_hit (lid, cn) s1 = (None, log_event (CacheGet (lid, cn)) s1)"
    using assms(3-6) by (auto simp: cache_hit_def log_event_def Let_def)
  then show ?thesis using assms(1,2) by (simp add: load_template_def Let_def)
qed

lemma load_and_store_trace:
  "trace (snd (load_and_store l k name g s)) =
     trace s @ LoaderLoad name #
       (case load \<lparr>c_disk = on_disk s, c_config = config s, c_globals = make_globals g s\<rparr> l name of
          Inl e \<Rightarrow> []
        | Inr t \<Rightarrow> (case cache s of None \<Rightarrow> [] | Some c \<Rightarrow> [CacheSet k (length (heap s))]))"
  by (simp add: load_and_store_def loader_load_def new_template_def cache_store_def log_event_def
      split: sum.splits option.splits)

lemma load_and_store_result:
  "load_and_store l k name g s =
     (case load \<lparr>c_disk = on_disk s, c_config = config s, c_globals = make_globals g s\<rparr> l name of
        Inl e \<Rightarrow> (Inl e, log_event (LoaderLoad name) s)
      | Inr t \<Rightarrow> (Inr (length (heap s)),
                  cache_store k (length (heap s)) ((log_event (LoaderLoad name) s)\<lparr>heap := heap s @ [t]\<rparr>)))"
  by (simp add: load_and_store_def loader_load_def new_template_def log_event_def
      split: sum.splits option.splits)

lemma update_globals_heap:
  "heap_get (heap s) a = Some t \<Longrightarrow>
     heap (update_globals a g s) =
       (heap s)[a := t\<lparr>tglobals := dict_update (tglobals t) (case g of None \<Rightarrow> [] | Some d \<Rightarrow> d)\<rparr>]"
  by (auto simp: update_globals_def heap_get_def log_event_def dict_update_def split: option.splits if_splits)

lemma update_globals_trace:
  "trace (update_globals a g s) =
     trace s @ (case g of None \<Rightarrow> [] | Some d \<Rightarrow> if d \<noteq> [] then [GlobalsUpdate a] else [])"
  by (auto simp: update_globals_def log_event_def split: option.splits)

lemma choice_load_all_fail:
  "\<forall>l' \<in> set ls. \<exists>n. load c l' name = Inl (TemplateNotFound n) \<Longrightarrow>
     choice_load c ls name = Inl (TemplateNotFound name)"
  by (induction ls) auto

lemma str_py_slash_neq: "t @ ''/'' @ name \<noteq> name"
proof
  assume "t @ ''/'' @ name = name"
  then have "length (t @ ''/'' @ name) = length name" by simp
  then show False by simp
qed

lemma split_once_Some: "split_once d s = Some (a, b) \<Longrightarrow> s = a @ d # b"
  by (induction s arbitrary: a) (auto split: if_splits option.splits)

lemma handle_req: "req (handle c w) = req w"
  by (cases c) simp_all

lemma fold_handle_req: "req (fold handle calls w) = req w"
  by (induction calls arbitrary: w) (simp_all add: handle_req)

lemma parse_CTFd_version:
  "StrictVersion (PStr CTFd_version) = Inr \<lparr>version = (3, 7, 5), prerelease = None\<rparr>"
  by (simp add: CTFd_version_def StrictVersion_parse_def parse_patch_def parse_prerelease_def
      is_digit_def digit_chars_def nat_of_digits_def digit_val_def Let_def)

lemma StrictVersion_lt_irrefl: "\<not> StrictVersion_lt v v"
  by (simp add: StrictVersion_lt_def StrictVersion_cmp_def split: option.splits)

lemmas resolution_defs =
  load_template_def cache_name_of_def get_config_def set_config_def log_event_def cache_hit_def
  load_and_store_def loader_load_def new_template_def cache_store_def make_globals_def
  dict_update_def startswith_def from_source_def heap_get_def update_globals_def events_since_def
  Let_def

lemmas example_defs =
  example_env_def example_app_def example_disk_def loaders_def os_path_join_def startswith_def

lemma reverse_proxy_falsy:
  "\<not> rp_truthy v \<Longrightarrow> create_app_reverse_proxy v app = Inr app"
  by (simp add: create_app_reverse_proxy_def)

lemma reverse_proxy_string:
  "s \<noteq> [] \<Longrightarrow> int_list (split_sep CHR '','' s) = Inr args \<Longrightarrow>
     create_app_reverse_proxy (RPStr s) app = ProxyFix_init app args"
  by (simp add: create_app_reverse_proxy_def proxyfix_args_def)

lemma reverse_proxy_not_string:
  "rp_truthy v \<Longrightarrow> \<forall>s. v \<noteq> RPStr s \<Longrightarrow>
     create_app_reverse_proxy v app =
       Inl (TypeError ''argument after * must be an iterable, not NoneType'')"
  by (cases v) (simp_all add: create_app_reverse_proxy_def proxyfix_args_def)

lemmas version_defs =
  StrictVersion_parse_def parse_patch_def parse_prerelease_def is_digit_def digit_chars_def
  nat_of_digits_def digit_val_def StrictVersion_lt_def StrictVersion_cmp_def tuple3_lt_def
  prerelease_lt_def CTFd_version_def Let_def

lemmas proxy_defs =
  create_app_reverse_proxy_def proxyfix_args_def int_py_def strip_def is_space_def is_digit_def
  digit_chars_def nat_of_digits_def digit_val_def Let_def

section \<open>Claims\<close>

text \<open>
  C1. For a name that does not begin with \<open>admin/\<close>, the cache name is the string of
  the theme read from the configuration at that moment (one \<open>GetConfig\<close> event),
  then \<open>/\<close>, then the name; under two different theme identifiers the same name has
  two different cache names, and after resolving it under the one and then under the other
  the cache holds an entry under each of the two keys. For a name that begins with
  \<open>admin/\<close> the cache name is the name, the configuration is not read, and setting
  another theme leaves the cache name as it was.
\<close>

theorem cache_name_by_theme:
  "(\<not> startswith name ''admin/'' \<longrightarrow>
      fst (cache_name_of name s) = str_py (fst (get_config ''ctf_theme'' s)) @ ''/'' @ name \<and>
      events_since s (snd (cache_name_of name s)) = [GetConfig ''ctf_theme''] \<and>
      fst (cache_name_of name (set_config ''ctf_theme'' (PStr t1) s)) = t1 @ ''/'' @ name \<and>
      (t1 \<noteq> t2 \<longrightarrow>
         fst (cache_name_of name (set_config ''ctf_theme'' (PStr t1) s)) \<noteq>
         fst (cache_name_of name (set_config ''ctf_theme'' (PStr t2) s))) \<and>
      (t1 \<noteq> t2 \<and> loader s = Some (lid, l) \<and> cache s = Some c \<and>
       fst (load_template name g1 (set_config ''ctf_theme'' (PStr t1) s)) = Inr a1 \<and>
       fst (load_template name g2 (set_config ''ctf_theme'' (PStr t2)
              (snd (load_template name g1 (set_config ''ctf_theme'' (PStr t1) s))))) = Inr a2 \<longrightarrow>
       (\<exists>c'. cache (snd (load_template name g2 (set_config ''ctf_theme'' (PStr t2)
                     (snd (load_template name g1 (set_config ''ctf_theme'' (PStr t1) s)))))) = Some c' \<and>
             map_of c' (lid, t1 @ ''/'' @ name) = Some a1 \<and>
             map_of c' (lid, t2 @ ''/'' @ name) = Some a2 \<and>
             (lid, t1 @ ''/'' @ name) \<noteq> (lid, t2 @ ''/'' @ name)))) \<and>
   (startswith name ''admin/'' \<longrightarrow>
      fst (cache_name_of name s) = name \<and>
      events_since s (snd (cache_name_of name s)) = [] \<and>
      fst (cache_name_of name (set_config ''ctf_theme'' v s)) = fst (cache_name_of name s))"
proof (intro conjI impI)
  assume na: "\<not> startswith name ''admin/''"
  show "fst (cache_name_of name s) = str_py (fst (get_config ''ctf_theme'' s)) @ ''/'' @ name"
    using na by (simp add: cache_name_of_theme)
  show "events_since s (snd (cache_name_of name s)) = [GetConfig ''ctf_theme'']"
    using na by (simp add: cache_name_of_events)
  show k1: "fst (cache_name_of name (set_config ''ctf_theme'' (PStr t1) s)) = t1 @ ''/'' @ name"
    using na by (simp add: cache_name_of_theme get_config_set_config)
  have k: "\<And>t s. fst (cache_name_of name (set_config ''ctf_theme'' (PStr t) s)) = t @ ''/'' @ name"
    using na by (simp add: cache_name_of_theme get_config_set_config)
  { assume "t1 \<noteq> t2"
    then show "fst (cache_name_of name (set_config ''ctf_theme'' (PStr t1) s)) \<noteq>
         fst (cache_name_of name (set_config ''ctf_theme'' (PStr t2) s))"
      by (simp add: k) }
  { assume h: "t1 \<noteq> t2 \<and> loader s = Some (lid, l) \<and> cache s = Some c \<and>
       fst (load_template name g1 (set_config ''ctf_theme'' (PStr t1) s)) = Inr a1 \<and>
       fst (load_template name g2 (set_config ''ctf_theme'' (PStr t2)
              (snd (load_template name g1 (set_config ''ctf_theme'' (PStr t1) s))))) = Inr a2"
    define sA where "sA = snd (load_template name g1 (set_config ''ctf_theme'' (PStr t1) s))"
    define sB where "sB = snd (load_template name g2 (set_config ''ctf_theme'' (PStr t2) sA))"
    have l0: "loader (set_config ''ctf_theme'' (PStr t1) s) = Some (lid, l)"
         "cache (set_config ''ctf_theme'' (PStr t1) s) = Some c"
      using h by (simp_all add: set_config_def log_event_def)
    have rA: "load_template name g1 (set_config ''ctf_theme'' (PStr t1) s) = (Inr a1, sA)"
      using h by (simp add: sA_def prod_eq_iff)
    from load_template_cache_effect[OF l0 rA] obtain cA where
      cA: "loader sA = Some (lid, l)" "cache sA = Some cA" "map_of cA (lid, t1 @ ''/'' @ name) = Some a1"
      by (auto simp: k)
    have l1: "loader (set_config ''ctf_theme'' (PStr t2) sA) = Some (lid, l)"
         "cache (set_config ''ctf_theme'' (PStr t2) sA) = Some cA"
      using cA by (simp_all add: set_config_def log_event_def)
    have rB: "load_template name g2 (set_config ''ctf_theme'' (PStr t2) sA) = (Inr a2, sB)"
      using h by (simp add: sB_def sA_def prod_eq_iff)
    from load_template_cache_effect[OF l1 rB] obtain cB where
      cB: "cache sB = Some cB" "map_of cB = (map_of cA)((lid, t2 @ ''/'' @ name) \<mapsto> a2)"
      by (auto simp: k)
    have "map_of cB (lid, t1 @ ''/'' @ name) = Some a1 \<and> map_of cB (lid, t2 @ ''/'' @ name) = Some a2"
      using cB(2) cA(3) h by simp
    then show "\<exists>c'. cache (snd (load_template name g2 (set_config ''ctf_theme'' (PStr t2)
                     (snd (load_template name g1 (set_config ''ctf_theme'' (PStr t1) s)))))) = Some c' \<and>
             map_of c' (lid, t1 @ ''/'' @ name) = Some a1 \<and>
             map_of c' (lid, t2 @ ''/'' @ name) = Some a2 \<and>
             (lid, t1 @ ''/'' @ name) \<noteq> (lid, t2 @ ''/'' @ name)"
      using cB(1) h by (simp add: sB_def sA_def) }
next
  assume a: "startswith name ''admin/''"
  show "fst (cache_name_of name s) = name" using a by (simp add: cache_name_of_admin)
  show "events_since s (snd (cache_name_of name s)) = []" using a by (simp add: cache_name_of_events)
  show "fst (cache_name_of name (set_config ''ctf_theme'' v s)) = fst (cache_name_of name s)"
    using a by (simp add: cache_name_of_admin)
qed

theorem cache_name_by_theme_witness:
  "\<not> startswith ''index.html'' ''admin/'' \<and>
   fst (cache_name_of ''index.html'' example_env) = ''core/index.html'' \<and>
   fst (load_template ''index.html'' None (set_config ''ctf_theme'' (PStr ''core'') example_env)) = Inr 0 \<and>
   fst (load_template ''index.html'' None (set_config ''ctf_theme'' (PStr ''dark'')
          (snd (load_template ''index.html'' None (set_config ''ctf_theme'' (PStr ''core'') example_env))))) = Inr 1 \<and>
   (\<exists>c'. cache (snd (load_template ''index.html'' None (set_config ''ctf_theme'' (PStr ''dark'')
          (snd (load_template ''index.html'' None (set_config ''ctf_theme'' (PStr ''core'') example_env)))))) = Some c' \<and>
         map_of c' (1, ''core/index.html'') = Some 0 \<and> map_of c' (1, ''dark/index.html'') = Some 1) \<and>
   startswith ''admin/config.html'' ''admin/'' \<and>
   fst (cache_name_of ''admin/config.html'' (set_config ''ctf_theme'' (PStr ''dark'') example_env)) =
     ''admin/config.html''"
proof -
  let ?sA = "snd (load_template ''index.html'' None (set_config ''ctf_theme'' (PStr ''core'') example_env))"
  have h1: "\<not> startswith ''index.html'' ''admin/''" by (simp add: startswith_def)
  have h2: "loader example_env = Some (1, ChoiceLoader (loaders example_app)) \<and> cache example_env = Some []"
    by (simp add: example_env_def)
  have h3: "fst (load_template ''index.html'' None (set_config ''ctf_theme'' (PStr ''core'') example_env)) = Inr 0"
    by (simp add: resolution_defs example_defs)
  have h4: "fst (load_template ''index.html'' None (set_config ''ctf_theme'' (PStr ''dark'') ?sA)) = Inr 1"
    by (simp add: resolution_defs example_defs)
  have h5: "startswith ''admin/config.html'' ''admin/''" by (simp add: startswith_def)
  have h6: "fst (cache_name_of ''index.html'' example_env) = ''core/index.html''"
    by (simp add: resolution_defs example_defs)
  show ?thesis
    using h1 h2 h3 h4 h5 h6
      cache_name_by_theme [of "''index.html''" example_env "''core''" "''dark''" 1
        "ChoiceLoader (loaders example_app)" "[]" None 0 None 1 "PStr ''dark''"]
      cache_name_by_theme [of "''admin/config.html''" example_env "''core''" "''dark''" 1
        "ChoiceLoader (loaders example_app)" "[]" None 0 None 1 "PStr ''dark''"]
    by simp
qed

text \<open>
  C2. With a cache configured and a template found under the cache key,
  \<open>_load_template\<close> returns that same template object without calling the loader
  exactly when auto-reload is off or the template reports itself up to date; it then leaves
  the cache as it is and updates the globals of that object with the globals supplied. In
  the other case it goes on to the loader (lines 81 to 85): the loader is called, and a
  template it returns becomes a new object, is returned, and replaces the entry under the
  same key.
\<close>

theorem cached_template_honoured:
  assumes "loader s = Some (lid, l)" and "cache s = Some c"
    and "cache_name_of name s = (cn, s1)"
    and "map_of c (lid, cn) = Some a" and "heap_get (heap s) a = Some t"
  shows
   "((fst (load_template name g s) = Inr a \<and>
      LoaderLoad name \<notin> set (events_since s (snd (load_template name g s))))
       \<longleftrightarrow> (\<not> auto_reload s \<or> is_up_to_date t)) \<and>
    (\<not> auto_reload s \<or> is_up_to_date t \<longrightarrow>
       load_template name g s = (Inr a, update_globals a g (log_event (CacheGet (lid, cn)) s1)) \<and>
       cache (snd (load_template name g s)) = cache s \<and>
       heap (snd (load_template name g s)) =
         (heap s)[a := t\<lparr>tglobals := dict_update (tglobals t) (case g of None \<Rightarrow> [] | Some d \<Rightarrow> d)\<rparr>]) \<and>
    (\<not> (\<not> auto_reload s \<or> is_up_to_date t) \<longrightarrow>
       load_template name g s =
         load_and_store l (lid, cn) name g (log_event (CacheGet (lid, cn)) s1) \<and>
       LoaderLoad name \<in> set (events_since s (snd (load_template name g s))) \<and>
       (\<forall>t'. load \<lparr>c_disk = on_disk s, c_config = config s, c_globals = make_globals g s\<rparr> l name = Inr t'
          \<longrightarrow> fst (load_template name g s) = Inr (length (heap s)) \<and>
              length (heap s) \<noteq> a \<and>
              heap (snd (load_template name g s)) = heap s @ [t'] \<and>
              cache (snd (load_template name g s)) = Some (AList.update (lid, cn) (length (heap s)) c) \<and>
              map_of (AList.update (lid, cn) (length (heap s)) c) (lid, cn) = Some (length (heap s))))"
proof -
  note s1 = cache_name_of_trace[OF assms(3)]
  have a_lt: "a < length (heap s)" using assms(5) by (simp add: heap_get_def split: if_splits)
  have f1: "heap s1 = heap s" "cache s1 = cache s" "on_disk s1 = on_disk s" "config s1 = config s"
    "env_globals s1 = env_globals s" "\<exists>ev. trace s1 = trace s @ ev \<and> LoaderLoad name \<notin> set ev"
    by (subst s1, simp)+
  show ?thesis
  proof (cases "\<not> auto_reload s \<or> is_up_to_date t")
    case True
    note hit = load_template_hit[OF assms(1,3,2,4,5) True, of g]
    have "LoaderLoad name \<notin> set (events_since s (snd (load_template name g s)))"
      using f1(6) by (auto simp: hit events_since_def update_globals_trace log_event_def split: option.splits)
    moreover have "heap (snd (load_template name g s)) =
         (heap s)[a := t\<lparr>tglobals := dict_update (tglobals t) (case g of None \<Rightarrow> [] | Some d \<Rightarrow> d)\<rparr>]"
      using update_globals_heap[of "log_event (CacheGet (lid, cn)) s1" a t g] assms(5) f1(1)
      by (simp add: hit log_event_def)
    moreover have "cache (snd (load_template name g s)) = cache s"
      using f1(2) by (simp add: hit update_globals_frame log_event_def)
    ultimately show ?thesis using True hit by simp
  next
    case False
    note stale = load_template_stale[OF assms(1,3,2,4,5) False, of g]
    let ?s2 = "log_event (CacheGet (lid, cn)) s1"
    have f2: "heap ?s2 = heap s" "cache ?s2 = Some c" "on_disk ?s2 = on_disk s" "config ?s2 = config s"
      "make_globals g ?s2 = make_globals g s"
      using f1 assms(2) by (simp_all add: log_event_def make_globals_def)
    have ev: "LoaderLoad name \<in> set (events_since s (snd (load_template name g s)))"
      using f1(6) by (auto simp: stale events_since_def load_and_store_trace log_event_def)
    have res: "\<forall>t'. load \<lparr>c_disk = on_disk s, c_config = config s, c_globals = make_globals g s\<rparr> l name = Inr t'
          \<longrightarrow> fst (load_template name g s) = Inr (length (heap s)) \<and>
              length (heap s) \<noteq> a \<and>
              heap (snd (load_template name g s)) = heap s @ [t'] \<and>
              cache (snd (load_template name g s)) = Some (AList.update (lid, cn) (length (heap s)) c) \<and>
              map_of (AList.update (lid, cn) (length (heap s)) c) (lid, cn) = Some (length (heap s))"
      using a_lt f2 by (auto simp: stale load_and_store_result cache_store_def log_event_def update_conv')
    have "fst (load_template name g s) \<noteq> Inr a"
      using a_lt f2 by (auto simp: stale load_and_store_result split: sum.splits)
    then show ?thesis using False stale ev res by simp
  qed
qed


theorem cached_template_honoured_witness:
  "loader (snd (load_template ''a.html'' None example_env)) = Some (1, ChoiceLoader (loaders example_app)) \<and>
   cache (snd (load_template ''a.html'' None example_env)) = Some [((1, ''core/a.html''), 0)] \<and>
   fst (load_template ''a.html'' None example_env) = Inr 0 \<and>
   fst (load_template ''a.html'' (Some [(''x'', PInt 1)]) (snd (load_template ''a.html'' None example_env))) = Inr 0 \<and>
   LoaderLoad ''a.html'' \<notin> set (events_since (snd (load_template ''a.html'' None example_env))
      (snd (load_template ''a.html'' (Some [(''x'', PInt 1)]) (snd (load_template ''a.html'' None example_env))))) \<and>
   heap (snd (load_template ''a.html'' (Some [(''x'', PInt 1)]) (snd (load_template ''a.html'' None example_env)))) =
     [\<lparr>source = ''<h1>a</h1>'', tglobals = [(''ctf_name'', PStr ''CTFd''), (''x'', PInt 1)], is_up_to_date = True\<rparr>] \<and>
   fst (load_template ''a.html'' None
         ((snd (load_template ''a.html'' None example_env))
            \<lparr>auto_reload := True,
             heap := [\<lparr>source = ''<h1>old</h1>'', tglobals = [], is_up_to_date = False\<rparr>]\<rparr>)) = Inr 1 \<and>
   cache (snd (load_template ''a.html'' None
         ((snd (load_template ''a.html'' None example_env))
            \<lparr>auto_reload := True,
             heap := [\<lparr>source = ''<h1>old</h1>'', tglobals = [], is_up_to_date = False\<rparr>]\<rparr>))) =
     Some [((1, ''core/a.html''), 1)]"
proof -
  let ?s = "snd (load_template ''a.html'' None example_env)"
  let ?t = "\<lparr>source = ''<h1>a</h1>'', tglobals = [(''ctf_name'', PStr ''CTFd'')], is_up_to_date = True\<rparr>"
  have s: "?s = example_env\<lparr>cache := Some [((1, ''core/a.html''), 0)], heap := [?t],
             trace := [GetConfig ''ctf_theme'', CacheGet (1, ''core/a.html''), LoaderLoad ''a.html'',
                       CacheSet (1, ''core/a.html'') 0]\<rparr>"
    by (simp add: resolution_defs example_defs)
  have h0: "fst (load_template ''a.html'' None example_env) = Inr 0"
    by (simp add: resolution_defs example_defs)
  have h1: "loader ?s = Some (1, ChoiceLoader (loaders example_app))"
    by (simp add: s) (simp add: example_env_def)
  have h2: "cache ?s = Some [((1, ''core/a.html''), 0)]" by (simp add: s)
  have h3: "cache_name_of ''a.html'' ?s = (''core/a.html'', snd (cache_name_of ''a.html'' ?s))"
    by (simp add: s) (simp add: resolution_defs example_defs)
  have h4: "map_of [((1::nat, ''core/a.html''), 0::nat)] (1, ''core/a.html'') = Some 0" by simp
  have h5: "heap_get (heap ?s) 0 = Some ?t" by (simp add: s heap_get_def)
  have h6: "\<not> auto_reload ?s \<or> is_up_to_date ?t" by simp
  have h7: "heap ?s = [?t]" by (simp add: s)
  let ?r = "load_template ''a.html'' (Some [(''x'', PInt 1)]) ?s"
  note th = cached_template_honoured [OF h1 h2 h3 h4 h5, of "Some [(''x'', PInt 1)]"]
  have c1: "fst ?r = Inr 0 \<and> LoaderLoad ''a.html'' \<notin> set (events_since ?s (snd ?r))"
    by (rule th [THEN conjunct1, THEN iffD2, OF h6])
  have c2: "heap (snd ?r) = (heap ?s)[0 := ?t\<lparr>tglobals := dict_update (tglobals ?t) [(''x'', PInt 1)]\<rparr>]"
    using th [THEN conjunct2, THEN conjunct1, THEN mp, OF h6, THEN conjunct2, THEN conjunct2]
    by simp
  let ?u = "\<lparr>source = ''<h1>old</h1>'', tglobals = [], is_up_to_date = False\<rparr>"
  let ?s' = "?s\<lparr>auto_reload := True, heap := [?u]\<rparr>"
  let ?r' = "load_template ''a.html'' None ?s'"
  have k1: "loader ?s' = Some (1, ChoiceLoader (loaders example_app))" using h1 by simp
  have k2: "cache ?s' = Some [((1, ''core/a.html''), 0)]" using h2 by simp
  have k3: "cache_name_of ''a.html'' ?s' = (''core/a.html'', snd (cache_name_of ''a.html'' ?s'))"
    by (simp add: s) (simp add: resolution_defs example_defs)
  have k5: "heap_get (heap ?s') 0 = Some ?u" by (simp add: heap_get_def)
  have k6: "\<not> (\<not> auto_reload ?s' \<or> is_up_to_date ?u)" by simp
  have k7: "load \<lparr>c_disk = on_disk ?s', c_config = config ?s', c_globals = make_globals None ?s'\<rparr>
              (ChoiceLoader (loaders example_app)) ''a.html'' = Inr ?t"
    by (simp add: s) (simp add: resolution_defs example_defs)
  note th' = cached_template_honoured [OF k1 k2 k3 h4 k5, of None]
  have c3: "fst ?r' = Inr 1 \<and> cache (snd ?r') = Some [((1, ''core/a.html''), 1)]"
    using th' [THEN conjunct2, THEN conjunct2, THEN mp, OF k6, THEN conjunct2, THEN conjunct2,
               THEN spec, THEN mp, OF k7]
    by simp
  show ?thesis
    using h0 h1 h2 c1 c2 c3 by (simp add: h7 dict_update_def)
qed

text \<open>
  C3. \<open>create_app\<close> sets the application's loader to a chain of exactly three loaders, in
  this order: the override table, the theme loader, the loader of the \<open>plugins\<close> prefix.
  The chain answers with the override table's source when the table has the name, else with
  the theme loader's when it has one, else with the plugin loader's answer; so a name in the
  override table gives the table's source whatever the disk holds. The third loader resolves
  only names that begin with \<open>plugins/\<close>, looking the rest of the name up under the
  plugins directory.
\<close>

theorem loader_chain_order:
  "jinja_loader (create_app_loaders app) =
     Some (ChoiceLoader
       [DictLoader (overridden_templates app),
        ThemeLoader,
        PrefixLoader [(''plugins'', FileSystemLoader (os_path_join (root_path app) ''plugins''))]]) \<and>
   load c (ChoiceLoader (loaders app)) name =
     (case map_of (overridden_templates app) name of
        Some text \<Rightarrow> Inr \<lparr>source = text, tglobals = c_globals c, is_up_to_date = True\<rparr>
      | None \<Rightarrow>
          (case theme_get_source (c_disk c) (c_config c) name of
             Some text \<Rightarrow> Inr \<lparr>source = text, tglobals = c_globals c, is_up_to_date = True\<rparr>
           | None \<Rightarrow>
               load c (PrefixLoader [(''plugins'', FileSystemLoader (os_path_join (root_path app) ''plugins''))]) name)) \<and>
   (\<forall>text. map_of (overridden_templates app) name = Some text \<longrightarrow>
      load c (ChoiceLoader (loaders app)) name =
        Inr \<lparr>source = text, tglobals = c_globals c, is_up_to_date = True\<rparr>) \<and>
   (\<forall>t. load c (PrefixLoader [(''plugins'', FileSystemLoader (os_path_join (root_path app) ''plugins''))]) name = Inr t
      \<longrightarrow> startswith name ''plugins/'') \<and>
   (\<forall>local_name. name = ''plugins/'' @ local_name \<longrightarrow>
      load c (PrefixLoader [(''plugins'', FileSystemLoader (os_path_join (root_path app) ''plugins''))]) name =
        from_source c name (fs_get_source (c_disk c) (os_path_join (root_path app) ''plugins'') local_name))"
proof (intro conjI allI impI)
  show "jinja_loader (create_app_loaders app) =
     Some (ChoiceLoader
       [DictLoader (overridden_templates app),
        ThemeLoader,
        PrefixLoader [(''plugins'', FileSystemLoader (os_path_join (root_path app) ''plugins''))]])"
    by (simp add: create_app_loaders_def loaders_def)
  show "load c (ChoiceLoader (loaders app)) name =
     (case map_of (overridden_templates app) name of
        Some text \<Rightarrow> Inr \<lparr>source = text, tglobals = c_globals c, is_up_to_date = True\<rparr>
      | None \<Rightarrow>
          (case theme_get_source (c_disk c) (c_config c) name of
             Some text \<Rightarrow> Inr \<lparr>source = text, tglobals = c_globals c, is_up_to_date = True\<rparr>
           | None \<Rightarrow>
               load c (PrefixLoader [(''plugins'', FileSystemLoader (os_path_join (root_path app) ''plugins''))]) name))"
    by (auto simp: loaders_def from_source_def split: option.splits sum.splits error.splits if_splits)
  show "load c (ChoiceLoader (loaders app)) name =
        Inr \<lparr>source = src, tglobals = c_globals c, is_up_to_date = True\<rparr>"
    if "map_of (overridden_templates app) name = Some src" for src
    using that by (simp add: loaders_def from_source_def)
  show "startswith name ''plugins/''"
    if "load c (PrefixLoader [(''plugins'', FileSystemLoader (os_path_join (root_path app) ''plugins''))]) name = Inr t" for t
  proof -
    from that obtain local_name where "split_once CHR ''/'' name = Some (''plugins'', local_name)"
      by (auto split: option.splits if_splits)
    from split_once_Some[OF this] show ?thesis by (simp add: startswith_def)
  qed
  show "load c (PrefixLoader [(''plugins'', FileSystemLoader (os_path_join (root_path app) ''plugins''))]) name =
        from_source c name (fs_get_source (c_disk c) (os_path_join (root_path app) ''plugins'') local_name)"
    if "name = ''plugins/'' @ local_name" for local_name
    using that by (auto simp: from_source_def split: option.splits)
qed


theorem loader_chain_order_witness:
  "map_of (overridden_templates example_app) ''index.html'' = Some ''<p>hi</p>'' \<and>
   theme_get_source example_disk [(''ctf_theme'', PStr ''core'')] ''index.html'' = Some ''<h1>theme</h1>'' \<and>
   load \<lparr>c_disk = example_disk, c_config = [(''ctf_theme'', PStr ''core'')], c_globals = []\<rparr>
     (ChoiceLoader (loaders example_app)) ''index.html'' =
       Inr \<lparr>source = ''<p>hi</p>'', tglobals = [], is_up_to_date = True\<rparr> \<and>
   load \<lparr>c_disk = example_disk, c_config = [(''ctf_theme'', PStr ''core'')], c_globals = []\<rparr>
     (PrefixLoader [(''plugins'', FileSystemLoader (os_path_join (root_path example_app) ''plugins''))])
     ''plugins/challenges/view.html'' =
       Inr \<lparr>source = ''<div></div>'', tglobals = [], is_up_to_date = True\<rparr>"
proof -
  let ?c = "\<lparr>c_disk = example_disk, c_config = [(''ctf_theme'', PStr ''core'')], c_globals = []\<rparr>"
  have h1: "map_of (overridden_templates example_app) ''index.html'' = Some ''<p>hi</p>''"
    by (simp add: example_app_def)
  have h2: "theme_get_source example_disk [(''ctf_theme'', PStr ''core'')] ''index.html'' = Some ''<h1>theme</h1>''"
    by (simp add: example_disk_def)
  have h3: "''plugins/challenges/view.html'' = ''plugins/'' @ ''challenges/view.html''" by simp
  have h4: "from_source ?c ''plugins/challenges/view.html''
              (fs_get_source (c_disk ?c) (os_path_join (root_path example_app) ''plugins'') ''challenges/view.html'')
            = Inr \<lparr>source = ''<div></div>'', tglobals = [], is_up_to_date = True\<rparr>"
    by (simp add: from_source_def example_defs)
  note th = loader_chain_order [of example_app ?c]
  have c1: "load ?c (ChoiceLoader (loaders example_app)) ''index.html'' =
              Inr \<lparr>source = ''<p>hi</p>'', tglobals = c_globals ?c, is_up_to_date = True\<rparr>"
    by (rule th [of "''index.html''", THEN conjunct2, THEN conjunct2, THEN conjunct1, THEN spec, THEN mp, OF h1])
  have c2: "load ?c (PrefixLoader [(''plugins'', FileSystemLoader (os_path_join (root_path example_app) ''plugins''))])
              ''plugins/challenges/view.html'' =
            from_source ?c ''plugins/challenges/view.html''
              (fs_get_source (c_disk ?c) (os_path_join (root_path example_app) ''plugins'') ''challenges/view.html'')"
    by (rule th [of "''plugins/challenges/view.html''", THEN conjunct2, THEN conjunct2, THEN conjunct2,
                 THEN conjunct2, THEN spec, THEN mp, OF h3])
  show ?thesis using h1 h2 c1 c2 h4 by simp
qed

text \<open>
  C4. On a cache miss (no cache, no entry under the key, or an entry that is not honoured)
  \<open>_load_template\<close> goes on to the loader: the loader is called, and every call of it
  is with the name as given; for a name outside \<open>admin/\<close> the cache name differs from
  the name and is never what the loader is called with. Whatever the loader raises is what
  \<open>_load_template\<close> raises, with the cache and the heap as they were; in particular,
  when the loader is a chain none of whose loaders resolves the name, that is
  \<open>TemplateNotFound\<close> for the name.
\<close>

theorem cache_miss_loads_by_name:
  assumes "loader s = Some (lid, l)" and "cache_name_of name s = (cn, s1)"
    and "cache_hit (lid, cn) s1 = (None, s2)"
  shows
   "load_template name g s = load_and_store l (lid, cn) name g s2 \<and>
    LoaderLoad name \<in> set (events_since s (snd (load_template name g s))) \<and>
    (\<forall>n. LoaderLoad n \<in> set (events_since s (snd (load_template name g s))) \<longrightarrow> n = name) \<and>
    (\<not> startswith name ''admin/'' \<longrightarrow>
       cn \<noteq> name \<and> LoaderLoad cn \<notin> set (events_since s (snd (load_template name g s)))) \<and>
    (\<forall>e. load \<lparr>c_disk = on_disk s, c_config = config s, c_globals = make_globals g s\<rparr> l name = Inl e
       \<longrightarrow> fst (load_template name g s) = Inl e \<and>
           cache (snd (load_template name g s)) = cache s \<and>
           heap (snd (load_template name g s)) = heap s) \<and>
    (\<forall>ls. l = ChoiceLoader ls \<and>
       (\<forall>l' \<in> set ls. \<exists>n. load \<lparr>c_disk = on_disk s, c_config = config s, c_globals = make_globals g s\<rparr> l' name
                              = Inl (TemplateNotFound n))
       \<longrightarrow> fst (load_template name g s) = Inl (TemplateNotFound name))"
proof -
  note s1 = cache_name_of_trace[OF assms(2)]
  have f1: "heap s1 = heap s" "cache s1 = cache s" "on_disk s1 = on_disk s" "config s1 = config s"
    "env_globals s1 = env_globals s"
    by (subst s1, simp)+
  obtain ev2 where s2: "s2 = s1\<lparr>trace := trace s1 @ ev2\<rparr>" "set ev2 \<subseteq> {CacheGet (lid, cn)}"
    using cache_hit_frame[OF assms(3)] by (metis state.surjective state.update_convs(8))
  have f2: "heap s2 = heap s" "cache s2 = cache s" "on_disk s2 = on_disk s" "config s2 = config s"
    "make_globals g s2 = make_globals g s"
    using f1 by (simp_all add: s2 make_globals_def)
  have tr2: "trace s2 = trace s @ (if startswith name ''admin/'' then [] else [GetConfig ''ctf_theme'']) @ ev2"
    by (subst s2, subst s1, simp)
  have eq: "load_template name g s = load_and_store l (lid, cn) name g s2"
    using assms by (simp add: load_template_def Let_def)
  have cn: "\<not> startswith name ''admin/'' \<longrightarrow> cn \<noteq> name"
    using assms(2) str_py_slash_neq by (auto simp: cache_name_of_theme)
  have evs: "set (events_since s (snd (load_template name g s))) \<subseteq>
               {GetConfig ''ctf_theme'', CacheGet (lid, cn), LoaderLoad name, CacheSet (lid, cn) (length (heap s))}"
       "LoaderLoad name \<in> set (events_since s (snd (load_template name g s)))"
    using s2(2) f2 by (auto simp: eq events_since_def load_and_store_trace tr2 split: sum.splits option.splits)
  have err: "\<forall>e. load \<lparr>c_disk = on_disk s, c_config = config s, c_globals = make_globals g s\<rparr> l name = Inl e
       \<longrightarrow> fst (load_template name g s) = Inl e \<and>
           cache (snd (load_template name g s)) = cache s \<and>
           heap (snd (load_template name g s)) = heap s"
    using f2 by (simp add: eq load_and_store_result log_event_def)
  have chain: "\<forall>ls. l = ChoiceLoader ls \<and>
       (\<forall>l' \<in> set ls. \<exists>n. load \<lparr>c_disk = on_disk s, c_config = config s, c_globals = make_globals g s\<rparr> l' name
                              = Inl (TemplateNotFound n))
       \<longrightarrow> fst (load_template name g s) = Inl (TemplateNotFound name)"
    using err choice_load_all_fail by (metis load.simps(5))
  show ?thesis using eq evs cn err chain by (intro conjI) auto
qed

theorem cache_miss_loads_by_name_witness:
  "loader example_env = Some (1, ChoiceLoader (loaders example_app)) \<and>
   fst (cache_name_of ''missing.html'' example_env) = ''core/missing.html'' \<and>
   fst (cache_hit (1, ''core/missing.html'') (snd (cache_name_of ''missing.html'' example_env))) = None \<and>
   fst (load_template ''missing.html'' None example_env) = Inl (TemplateNotFound ''missing.html'') \<and>
   LoaderLoad ''missing.html'' \<in> set (events_since example_env (snd (load_template ''missing.html'' None example_env))) \<and>
   LoaderLoad ''core/missing.html'' \<notin> set (events_since example_env (snd (load_template ''missing.html'' None example_env)))"
proof -
  let ?s1 = "snd (cache_name_of ''missing.html'' example_env)"
  let ?s2 = "snd (cache_hit (1, ''core/missing.html'') ?s1)"
  have h1: "loader example_env = Some (1, ChoiceLoader (loaders example_app))"
    by (simp add: example_env_def)
  have h2: "cache_name_of ''missing.html'' example_env = (''core/missing.html'', ?s1)"
    by (simp add: resolution_defs example_defs)
  have h3: "cache_hit (1, ''core/missing.html'') ?s1 = (None, ?s2)"
    by (simp add: resolution_defs example_defs)
  have h4: "\<not> startswith ''missing.html'' ''admin/''" by (simp add: startswith_def)
  have h5: "load \<lparr>c_disk = on_disk example_env, c_config = config example_env,
                  c_globals = make_globals None example_env\<rparr>
              (ChoiceLoader (loaders example_app)) ''missing.html'' = Inl (TemplateNotFound ''missing.html'')"
    by (simp add: resolution_defs example_defs)
  note th = cache_miss_loads_by_name [OF h1 h2 h3, of None]
  have c1: "LoaderLoad ''missing.html'' \<in> set (events_since example_env (snd (load_template ''missing.html'' None example_env)))"
    by (rule th [THEN conjunct2, THEN conjunct1])
  have c2: "LoaderLoad ''core/missing.html'' \<notin> set (events_since example_env (snd (load_template ''missing.html'' None example_env)))"
    by (rule th [THEN conjunct2, THEN conjunct2, THEN conjunct2, THEN conjunct1, THEN mp, OF h4, THEN conjunct2])
  have c3: "fst (load_template ''missing.html'' None example_env) = Inl (TemplateNotFound ''missing.html'')"
    by (rule th [THEN conjunct2, THEN conjunct2, THEN conjunct2, THEN conjunct2, THEN conjunct1,
                 THEN spec, THEN mp, OF h5, THEN conjunct1])
  have h2': "fst (cache_name_of ''missing.html'' example_env) = ''core/missing.html''"
    by (simp add: resolution_defs example_defs)
  have h3': "fst (cache_hit (1, ''core/missing.html'') ?s1) = None"
    by (simp add: resolution_defs example_defs)
  show ?thesis using h1 h2' h3' c1 c2 c3 by simp
qed

text \<open>
  C5 (as amended). When the environment has no loader, \<open>_load_template\<close> raises, for
  every name and globals, a \<open>TypeError\<close> with the message
  \<open>no loader for this environment specified\<close>, and has done nothing before: the state
  is the one it was called in and no event has been added to the trace (no configuration
  read, no cache lookup, no load).
\<close>

theorem no_loader_TypeError:
  "loader s = None \<Longrightarrow>
     load_template name g s = (Inl (TypeError ''no loader for this environment specified''), s) \<and>
     events_since s (snd (load_template name g s)) = []"
  by (simp add: load_template_def events_since_def)

theorem no_loader_TypeError_witness:
  "loader (example_env\<lparr>loader := None\<rparr>) = None \<and>
   load_template ''index.html'' None (example_env\<lparr>loader := None\<rparr>) =
     (Inl (TypeError ''no loader for this environment specified''), example_env\<lparr>loader := None\<rparr>)"
proof -
  have h: "loader (example_env\<lparr>loader := None\<rparr>) = None" by simp
  show ?thesis using h no_loader_TypeError [OF h, of "''index.html''" None] by simp
qed

text \<open>
  C5 as stated fails: the exception raised without a loader is not a
  \<open>ConfigurationError\<close> and its message is not \<open>no loader specified\<close>.
\<close>

theorem no_loader_message_counterexample:
  "fst (load_template ''index.html'' None (example_env\<lparr>loader := None\<rparr>)) =
     Inl (TypeError ''no loader for this environment specified'') \<and>
   exc_class (TypeError ''no loader for this environment specified'') \<noteq> ''ConfigurationError'' \<and>
   exc_message (TypeError ''no loader for this environment specified'') \<noteq> ''no loader specified''"
  by (simp add: load_template_def)

text \<open>
  C6. At startup the stored \<open>ctf_version\<close> is read once. When it is a version string
  strictly below the build version 3.7.5 in \<open>StrictVersion\<close> order, the upgrade routine
  is called exactly once and the configuration is left alone; when it is the build version
  (or any version not below it), nothing is called and nothing is written; when nothing is
  stored (the value is falsy), \<open>ctf_version\<close> is set to the build version.
\<close>

theorem version_check_upgrade:
  "(\<forall>v stored.
      fst (get_config ''ctf_version'' s) = PStr v \<and> v \<noteq> [] \<and>
      StrictVersion_parse v = Inr stored \<and>
      StrictVersion_lt stored \<lparr>version = (3, 7, 5), prerelease = None\<rparr> \<longrightarrow>
        fst (create_app_version s) = Inr () \<and>
        events_since s (snd (create_app_version s)) = [GetConfig ''ctf_version'', RunUpgrade] \<and>
        count_list (events_since s (snd (create_app_version s))) RunUpgrade = 1 \<and>
        config (snd (create_app_version s)) = config s) \<and>
   (fst (get_config ''ctf_version'' s) = PStr CTFd_version \<longrightarrow>
        fst (create_app_version s) = Inr () \<and>
        events_since s (snd (create_app_version s)) = [GetConfig ''ctf_version''] \<and>
        config (snd (create_app_version s)) = config s) \<and>
   (\<forall>v stored.
      fst (get_config ''ctf_version'' s) = PStr v \<and> v \<noteq> [] \<and>
      StrictVersion_parse v = Inr stored \<and>
      \<not> StrictVersion_lt stored \<lparr>version = (3, 7, 5), prerelease = None\<rparr> \<longrightarrow>
        fst (create_app_version s) = Inr () \<and>
        events_since s (snd (create_app_version s)) = [GetConfig ''ctf_version''] \<and>
        config (snd (create_app_version s)) = config s) \<and>
   (\<not> truthy (fst (get_config ''ctf_version'' s)) \<longrightarrow>
        fst (create_app_version s) = Inr () \<and>
        events_since s (snd (create_app_version s)) =
          [GetConfig ''ctf_version'', SetConfig ''ctf_version'' (PStr ''3.7.5'')] \<and>
        fst (get_config ''ctf_version'' (snd (create_app_version s))) = PStr ''3.7.5'')"
proof (intro conjI allI impI)
  fix v stored
  assume h: "fst (get_config ''ctf_version'' s) = PStr v \<and> v \<noteq> [] \<and>
      StrictVersion_parse v = Inr stored \<and>
      StrictVersion_lt stored \<lparr>version = (3, 7, 5), prerelease = None\<rparr>"
  then have r: "create_app_version s = (Inr (), run_upgrade (log_event (GetConfig ''ctf_version'') s))"
    using parse_CTFd_version
    by (simp add: create_app_version_def get_config_def split: prod.splits)
  show "fst (create_app_version s) = Inr ()" by (simp add: r)
  show e: "events_since s (snd (create_app_version s)) = [GetConfig ''ctf_version'', RunUpgrade]"
    by (simp add: r run_upgrade_def log_event_def events_since_def)
  show "count_list (events_since s (snd (create_app_version s))) RunUpgrade = 1"
    by (simp add: e)
  show "config (snd (create_app_version s)) = config s"
    by (simp add: r run_upgrade_def log_event_def)
next
  assume h: "fst (get_config ''ctf_version'' s) = PStr CTFd_version"
  have t: "truthy (PStr CTFd_version)" by (simp add: CTFd_version_def)
  have r: "create_app_version s = (Inr (), log_event (GetConfig ''ctf_version'') s)"
    using h t parse_CTFd_version StrictVersion_lt_irrefl
    by (simp add: create_app_version_def get_config_def split: prod.splits)
  show "fst (create_app_version s) = Inr ()" by (simp add: r)
  show "events_since s (snd (create_app_version s)) = [GetConfig ''ctf_version'']"
    by (simp add: r log_event_def events_since_def)
  show "config (snd (create_app_version s)) = config s"
    by (simp add: r log_event_def)
next
  fix v stored
  assume h: "fst (get_config ''ctf_version'' s) = PStr v \<and> v \<noteq> [] \<and>
      StrictVersion_parse v = Inr stored \<and>
      \<not> StrictVersion_lt stored \<lparr>version = (3, 7, 5), prerelease = None\<rparr>"
  then have r: "create_app_version s = (Inr (), log_event (GetConfig ''ctf_version'') s)"
    using parse_CTFd_version
    by (simp add: create_app_version_def get_config_def split: prod.splits)
  show "fst (create_app_version s) = Inr ()" by (simp add: r)
  show "events_since s (snd (create_app_version s)) = [GetConfig ''ctf_version'']"
    by (simp add: r log_event_def events_since_def)
  show "config (snd (create_app_version s)) = config s"
    by (simp add: r log_event_def)
next
  assume h: "\<not> truthy (fst (get_config ''ctf_version'' s))"
  then have r: "create_app_version s =
      (Inr (), set_config ''ctf_version'' (PStr CTFd_version) (log_event (GetConfig ''ctf_version'') s))"
    by (simp add: create_app_version_def get_config_def split: prod.splits)
  show "fst (create_app_version s) = Inr ()" by (simp add: r)
  show "events_since s (snd (create_app_version s)) =
          [GetConfig ''ctf_version'', SetConfig ''ctf_version'' (PStr ''3.7.5'')]"
    by (simp add: r set_config_def log_event_def events_since_def CTFd_version_def)
  show "fst (get_config ''ctf_version'' (snd (create_app_version s))) = PStr ''3.7.5''"
    by (simp add: r get_config_set_config CTFd_version_def)
qed

theorem version_check_upgrade_witness:
  "fst (get_config ''ctf_version'' (example_env\<lparr>config := [(''ctf_version'', PStr ''3.7.0'')]\<rparr>)) = PStr ''3.7.0'' \<and>
   StrictVersion_parse ''3.7.0'' = Inr \<lparr>version = (3, 7, 0), prerelease = None\<rparr> \<and>
   StrictVersion_lt \<lparr>version = (3, 7, 0), prerelease = None\<rparr> \<lparr>version = (3, 7, 5), prerelease = None\<rparr> \<and>
   events_since (example_env\<lparr>config := [(''ctf_version'', PStr ''3.7.0'')]\<rparr>)
     (snd (create_app_version (example_env\<lparr>config := [(''ctf_version'', PStr ''3.7.0'')]\<rparr>))) =
     [GetConfig ''ctf_version'', RunUpgrade] \<and>
   events_since (example_env\<lparr>config := [(''ctf_version'', PStr ''3.7.5'')]\<rparr>)
     (snd (create_app_version (example_env\<lparr>config := [(''ctf_version'', PStr ''3.7.5'')]\<rparr>))) =
     [GetConfig ''ctf_version''] \<and>
   \<not> truthy (fst (get_config ''ctf_version'' example_env)) \<and>
   fst (get_config ''ctf_version'' (snd (create_app_version example_env))) = PStr ''3.7.5''"
proof -
  let ?old = "example_env\<lparr>config := [(''ctf_version'', PStr ''3.7.0'')]\<rparr>"
  let ?cur = "example_env\<lparr>config := [(''ctf_version'', PStr ''3.7.5'')]\<rparr>"
  have h1: "fst (get_config ''ctf_version'' ?old) = PStr ''3.7.0'' \<and> ''3.7.0'' \<noteq> [] \<and>
            StrictVersion_parse ''3.7.0'' = Inr \<lparr>version = (3, 7, 0), prerelease = None\<rparr> \<and>
            StrictVersion_lt \<lparr>version = (3, 7, 0), prerelease = None\<rparr> \<lparr>version = (3, 7, 5), prerelease = None\<rparr>"
    by (simp add: get_config_def version_defs)
  have h2: "fst (get_config ''ctf_version'' ?cur) = PStr CTFd_version"
    by (simp add: get_config_def CTFd_version_def)
  have h3: "\<not> truthy (fst (get_config ''ctf_version'' example_env))"
    by (simp add: get_config_def example_env_def)
  have c1: "events_since ?old (snd (create_app_version ?old)) = [GetConfig ''ctf_version'', RunUpgrade]"
    by (rule version_check_upgrade [of ?old, THEN conjunct1, THEN spec, THEN spec, THEN mp, OF h1,
          THEN conjunct2, THEN conjunct1])
  have c2: "events_since ?cur (snd (create_app_version ?cur)) = [GetConfig ''ctf_version'']"
    by (rule version_check_upgrade [of ?cur, THEN conjunct2, THEN conjunct1, THEN mp, OF h2,
          THEN conjunct2, THEN conjunct1])
  have c3: "fst (get_config ''ctf_version'' (snd (create_app_version example_env))) = PStr ''3.7.5''"
    by (rule version_check_upgrade [of example_env, THEN conjunct2, THEN conjunct2, THEN conjunct2,
          THEN mp, OF h3, THEN conjunct2, THEN conjunct2])
  show ?thesis using h1 h3 c1 c2 c3 by simp
qed

text \<open>
  C7, at the input \<open>REVERSE_PROXY = (1, 1, 0, 0)\<close>. The tuple is truthy and not a string,
  so \<open>proxyfix_args\<close> is \<open>None\<close> and \<open>ProxyFix(app.wsgi_app, *proxyfix_args)\<close> raises
  \<open>TypeError\<close>: the tuple is not applied. The string \<open>1,1,0,0\<close> wraps the entry point
  with the hop counts 1, 1, 0, 0 (and the default 0), and an absent value leaves the entry
  point as it is.
\<close>

theorem reverse_proxy_tuple_TypeError:
  "create_app_reverse_proxy (RPTuple [1, 1, 0, 0]) FlaskWsgiApp =
     Inl (TypeError ''argument after * must be an iterable, not NoneType'') \<and>
   create_app_reverse_proxy (RPStr ''1,1,0,0'') FlaskWsgiApp = Inr (ProxyFix FlaskWsgiApp 1 1 0 0 0) \<and>
   create_app_reverse_proxy RPNone FlaskWsgiApp = Inr FlaskWsgiApp"
  by (simp add: proxy_defs)

text \<open>
  C8 (as amended). When the options of the constructor hold no \<open>finalize\<close>, the
  environment's finalize maps \<open>None\<close> to the empty string and every other value to
  itself, so an expression whose value is \<open>None\<close> renders as the empty string and not
  as \<open>None\<close>.
\<close>

theorem default_finalize:
  "opt_finalize opts = None \<Longrightarrow>
     (\<exists>f. env_finalize (SandboxedBaseEnvironment_init gl opts) = Some f \<and>
          f PNone = PStr [] \<and> (\<forall>x. x \<noteq> PNone \<longrightarrow> f x = x)) \<and>
     render_value (env_finalize (SandboxedBaseEnvironment_init gl opts)) PNone = [] \<and>
     render_value (env_finalize (SandboxedBaseEnvironment_init gl opts)) PNone \<noteq> ''None''"
  by (simp add: SandboxedBaseEnvironment_init_def env_finalize_def render_value_def Let_def)

theorem default_finalize_witness:
  "opt_finalize \<lparr>opt_loader = None, opt_finalize = None\<rparr> = None \<and>
   render_value (env_finalize (SandboxedBaseEnvironment_init (1, ChoiceLoader (loaders example_app))
      \<lparr>opt_loader = None, opt_finalize = None\<rparr>)) PNone = [] \<and>
   render_value (env_finalize (SandboxedBaseEnvironment_init (1, ChoiceLoader (loaders example_app))
      \<lparr>opt_loader = None, opt_finalize = None\<rparr>)) (PStr ''CTFd'') = ''CTFd''"
proof -
  have h: "opt_finalize \<lparr>opt_loader = None, opt_finalize = None\<rparr> = None" by simp
  have c: "render_value (env_finalize (SandboxedBaseEnvironment_init (1, ChoiceLoader (loaders example_app))
      \<lparr>opt_loader = None, opt_finalize = None\<rparr>)) PNone = []"
    by (rule default_finalize [OF h, THEN conjunct2, THEN conjunct1])
  have d: "render_value (env_finalize (SandboxedBaseEnvironment_init (1, ChoiceLoader (loaders example_app))
      \<lparr>opt_loader = None, opt_finalize = None\<rparr>)) (PStr ''CTFd'') = ''CTFd''"
    using default_finalize [OF h, of "(1, ChoiceLoader (loaders example_app))", THEN conjunct1]
    by (auto simp: render_value_def)
  show ?thesis using h c d by simp
qed

text \<open>
  C8 as stated fails: an environment constructed with a finalize of the caller's keeps it,
  and with the identity as finalize an absent value renders as \<open>None\<close>.
\<close>

theorem supplied_finalize_counterexample:
  "env_finalize (SandboxedBaseEnvironment_init (1, ChoiceLoader (loaders example_app))
      \<lparr>opt_loader = None, opt_finalize = Some (Some (\<lambda>x. x))\<rparr>) = Some (\<lambda>x. x) \<and>
   render_value (env_finalize (SandboxedBaseEnvironment_init (1, ChoiceLoader (loaders example_app))
      \<lparr>opt_loader = None, opt_finalize = Some (Some (\<lambda>x. x))\<rparr>)) PNone = ''None''"
  by (simp add: SandboxedBaseEnvironment_init_def env_finalize_def render_value_def Let_def)

text \<open>
  C9. The request a call of this module sees is the one \<open>CTFdRequest.__init__\<close> made:
  its path is the script root followed by the path \<open>Request.__init__\<close> had set, one
  concatenation, and whatever calls into this module follow (the view, template
  resolutions), the request, its path and its script root stay as the constructor left
  them.
\<close>

theorem request_path_set_once:
  "req (lifecycle r calls s) = CTFdRequest_init r \<and>
   path (req (lifecycle r calls s)) = script_root r @ path r \<and>
   script_root (req (lifecycle r calls s)) = script_root r"
  by (simp add: lifecycle_def fold_handle_req CTFdRequest_init_def)

text \<open>
  C10. For a name that does not begin with \<open>admin/\<close>, when the configuration has no
  theme (the lookup gives \<open>None\<close>), the cache name is \<open>None/\<close> followed by the
  name: \<open>str\<close> is defined on every configuration value. Computing it raises nothing:
  whenever \<open>_load_template\<close> raises with a loader present, the exception is the one
  the loader raised for the name.
\<close>

theorem cache_name_without_theme:
  "\<not> startswith name ''admin/'' \<Longrightarrow> fst (get_config ''ctf_theme'' s) = PNone \<Longrightarrow>
     fst (cache_name_of name s) = ''None/'' @ name \<and>
     (\<forall>lid l e. loader s = Some (lid, l) \<and> fst (load_template name g s) = Inl e \<longrightarrow>
        load \<lparr>c_disk = on_disk s, c_config = config s, c_globals = make_globals g s\<rparr> l name = Inl e)"
  using load_template_Inl by (auto simp: cache_name_of_theme)


theorem cache_name_without_theme_witness:
  "\<not> startswith ''index.html'' ''admin/'' \<and>
   fst (get_config ''ctf_theme'' (example_env\<lparr>config := []\<rparr>)) = PNone \<and>
   fst (cache_name_of ''index.html'' (example_env\<lparr>config := []\<rparr>)) = ''None/index.html''"
proof -
  have h1: "\<not> startswith ''index.html'' ''admin/''" by (simp add: startswith_def)
  have h2: "fst (get_config ''ctf_theme'' (example_env\<lparr>config := []\<rparr>)) = PNone"
    by (simp add: get_config_def)
  show ?thesis
    using h1 h2 cache_name_without_theme [OF h1 h2, of None] by simp
qed

end
